theory Spec2Isabelle
  imports Complex_Main "HOL-Library.Word"
begin

section \<open>JavaScript strings\<close>

text \<open>
  A JavaScript string is a sequence of UTF-16 code units, and \<open>s.length\<close> counts code
  units. The literals of \<open>static/script.js\<close> are ASCII, so a literal is the list of its
  character codes.
\<close>

type_synonym jsstring = "16 word list"

definition lit :: "string \<Rightarrow> jsstring" where
  "lit s = map of_char s"

text \<open>
  \<open>String.prototype.trim\<close> removes the WhiteSpace and LineTerminator code points of
  ECMAScript from both ends: TAB, LF, VT, FF, CR, SP, NBSP, U+1680, U+2000 to U+200A,
  U+2028, U+2029, U+202F, U+205F, U+3000 and U+FEFF. All of them are single code units.
\<close>

definition is_white_space :: "16 word \<Rightarrow> bool" where
  "is_white_space c =
     (c = 0x09 \<or> c = 0x0A \<or> c = 0x0B \<or> c = 0x0C \<or> c = 0x0D \<or> c = 0x20 \<or> c = 0xA0
      \<or> c = 0x1680 \<or> (0x2000 \<le> c \<and> c \<le> 0x200A) \<or> c = 0x2028 \<or> c = 0x2029
      \<or> c = 0x202F \<or> c = 0x205F \<or> c = 0x3000 \<or> c = 0xFEFF)"

definition trim :: "jsstring \<Rightarrow> jsstring" where
  "trim s = rev (dropWhile is_white_space (rev (dropWhile is_white_space s)))"

text \<open>A string is falsy exactly when it is empty: \<open>!s\<close>.\<close>

definition falsy :: "jsstring \<Rightarrow> bool" where
  "falsy s = (s = [])"

text \<open>\<open>s.includes(p)\<close>: \<open>p\<close> occurs in \<open>s\<close> as a contiguous run of code units.\<close>

fun starts_with :: "jsstring \<Rightarrow> jsstring \<Rightarrow> bool" where
  "starts_with s [] = True"
| "starts_with [] (p # ps) = False"
| "starts_with (c # cs) (p # ps) = (c = p \<and> starts_with cs ps)"

fun js_includes :: "jsstring \<Rightarrow> jsstring \<Rightarrow> bool" where
  "js_includes [] p = (p = [])"
| "js_includes (c # cs) p = (starts_with (c # cs) p \<or> js_includes cs p)"

text \<open>ASCII lower-casing of one code unit and of a string (\<open>A\<close> to \<open>Z\<close> only).\<close>

definition lower_unit :: "16 word \<Rightarrow> 16 word" where
  "lower_unit c = (if 0x41 \<le> c \<and> c \<le> 0x5A then c + 0x20 else c)"

definition lower_ascii :: "jsstring \<Rightarrow> jsstring" where
  "lower_ascii s = map lower_unit s"

section \<open>Input validation\<close>

text \<open>
  \<open>validateInputs\<close> returns \<open>{ valid: false, message: m }\<close> or \<open>{ valid: true }\<close>: a
  tagged union on the \<open>valid\<close> flag. Its only caller passes the \<open>value\<close> of two
  textareas, which are always strings.
\<close>

datatype validation = Invalid jsstring | Valid

fun valid :: "validation \<Rightarrow> bool" where
  "valid Valid = True"
| "valid (Invalid m) = False"

definition msg_enter_job_description :: jsstring where
  "msg_enter_job_description = lit ''Please enter a job description''"

definition msg_enter_resume :: jsstring where
  "msg_enter_resume = lit ''Please enter a resume''"

definition msg_job_description_short :: jsstring where
  "msg_job_description_short =
     lit ''Job description is too short. Please provide at least 50 characters.''"

definition msg_resume_short :: jsstring where
  "msg_resume_short = lit ''Resume is too short. Please provide at least 50 characters.''"

definition validateInputs :: "jsstring \<Rightarrow> jsstring \<Rightarrow> validation" where
  "validateInputs jobDesc resume =
     (if falsy jobDesc \<or> length (trim jobDesc) = 0 then Invalid msg_enter_job_description
      else if falsy resume \<or> length (trim resume) = 0 then Invalid msg_enter_resume
      else if length (trim jobDesc) < 50 then Invalid msg_job_description_short
      else if length (trim resume) < 50 then Invalid msg_resume_short
      else Valid)"

text \<open>
  The validation order as the specification words it: four rules, tried in order, the
  first that fails gives the error. A field is missing when nothing is left of it after
  trimming, and too short when fewer than 50 code units are left.
\<close>

definition missing :: "jsstring \<Rightarrow> bool" where
  "missing s = (trim s = [])"

definition too_short :: "jsstring \<Rightarrow> bool" where
  "too_short s = (length (trim s) < 50)"

definition validation_rules :: "((jsstring \<Rightarrow> jsstring \<Rightarrow> bool) \<times> jsstring) list" where
  "validation_rules =
     [(\<lambda>jobDesc resume. missing jobDesc, msg_enter_job_description),
      (\<lambda>jobDesc resume. missing resume, msg_enter_resume),
      (\<lambda>jobDesc resume. too_short jobDesc, msg_job_description_short),
      (\<lambda>jobDesc resume. too_short resume, msg_resume_short)]"

fun first_failure ::
  "((jsstring \<Rightarrow> jsstring \<Rightarrow> bool) \<times> jsstring) list \<Rightarrow> jsstring \<Rightarrow> jsstring \<Rightarrow> validation" where
  "first_failure [] jobDesc resume = Valid"
| "first_failure ((fails, m) # rules) jobDesc resume =
     (if fails jobDesc resume then Invalid m else first_failure rules jobDesc resume)"

section \<open>Values parsed from a JSON response\<close>

text \<open>
  \<open>response.json()\<close> yields a JSON value; a property read yields a value or
  \<open>undefined\<close> (\<open>None\<close>). An object is the list of its own properties. Numbers are
  reals here: the code never computes with a number of the response before the score
  animation.
\<close>

datatype json =
    JNull
  | JBool bool
  | JNum real
  | JStr jsstring
  | JArr "json list"
  | JObj "(jsstring \<times> json) list"

text \<open>A thrown \<open>Error\<close> object, by its \<open>message\<close>.\<close>

datatype js_error = JsError (error_message: jsstring)

text \<open>
  What the JavaScript engine supplies: the string conversion of a value (\<open>String(v)\<close>,
  used by \<open>new Error(v)\<close> and by the \<open>textContent\<close> setter) and the message it gives
  its own \<open>TypeError\<close>s.
\<close>

record engine =
  to_string :: "json \<Rightarrow> jsstring"
  type_error_message :: jsstring

text \<open>
  \<open>data.k\<close> for the property names the script reads (none of them is a property of a
  prototype): a \<open>TypeError\<close> on \<open>null\<close>, the own property of an object, \<open>undefined\<close>
  on every other value.
\<close>

fun get_prop :: "engine \<Rightarrow> json \<Rightarrow> jsstring \<Rightarrow> js_error + json option" where
  "get_prop eng JNull k = Inl (JsError (type_error_message eng))"
| "get_prop eng (JObj kvs) k = Inr (map_of kvs k)"
| "get_prop eng v k = Inr None"

fun truthy :: "json option \<Rightarrow> bool" where
  "truthy None = False"
| "truthy (Some JNull) = False"
| "truthy (Some (JBool b)) = b"
| "truthy (Some (JNum n)) = (n \<noteq> 0)"
| "truthy (Some (JStr s)) = (s \<noteq> [])"
| "truthy (Some (JArr xs)) = True"
| "truthy (Some (JObj kvs)) = True"

text \<open>The \<open>textContent\<close> setter: \<open>null\<close> and \<open>undefined\<close> give the empty string.\<close>

fun text_content :: "engine \<Rightarrow> json option \<Rightarrow> jsstring" where
  "text_content eng None = []"
| "text_content eng (Some JNull) = []"
| "text_content eng (Some v) = to_string eng v"

section \<open>The page\<close>

text \<open>
  The request handed to \<open>fetch\<close>. The body is \<open>JSON.stringify\<close> of an object with two
  string properties; the model keeps the object.
\<close>

record payload =
  job_description :: jsstring
  resume :: jsstring

record request =
  url :: jsstring
  http_method :: jsstring
  content_type :: jsstring
  body :: payload

datatype list_element =
  StrengthsList | GapsList | ReasonsForList | ReasonsAgainstList | SuggestionsList

datatype child = Li jsstring | SuggestionItem jsstring

text \<open>
  The state the script reads and writes: the two textareas, the \<open>hidden\<close> class of the
  three sections, the button, the result elements, and the requests issued so far.
  \<open>animations\<close> lists the arguments of the \<open>animateScore\<close> calls made.
\<close>

record page =
  jobDescription_value :: jsstring
  resume_value :: jsstring
  error_text :: jsstring
  error_hidden :: bool
  loading_hidden :: bool
  results_hidden :: bool
  button_disabled :: bool
  animations :: "json option list"
  verdict_text :: jsstring
  verdict_classes :: "jsstring list"
  children :: "list_element \<Rightarrow> child list"
  requests :: "request list"

definition showError :: "jsstring \<Rightarrow> page \<Rightarrow> page" where
  "showError m s =
     s\<lparr>error_text := m, error_hidden := False, loading_hidden := True,
       results_hidden := True\<rparr>"

definition hideError :: "page \<Rightarrow> page" where
  "hideError s = s\<lparr>error_hidden := True\<rparr>"

definition showLoading :: "page \<Rightarrow> page" where
  "showLoading s = hideError (s\<lparr>loading_hidden := False, results_hidden := True\<rparr>)"

definition hideLoading :: "page \<Rightarrow> page" where
  "hideLoading s = s\<lparr>loading_hidden := True\<rparr>"

text \<open>
  A statement either completes or throws; the page keeps the writes made before the
  throw.
\<close>

type_synonym command = "page \<Rightarrow> js_error option \<times> page"

definition seq :: "command \<Rightarrow> command \<Rightarrow> command" where
  "seq c1 c2 s = (case c1 s of (None, s1) \<Rightarrow> c2 s1 | (Some e, s1) \<Rightarrow> (Some e, s1))"

definition with_prop :: "engine \<Rightarrow> json \<Rightarrow> string \<Rightarrow> (json option \<Rightarrow> command) \<Rightarrow> command" where
  "with_prop eng data k f s =
     (case get_prop eng data (lit k) of Inl e \<Rightarrow> (Some e, s) | Inr v \<Rightarrow> f v s)"

text \<open>
  \<open>createListItems\<close> empties the parent, then calls \<open>items.forEach\<close>: a \<open>TypeError\<close>
  unless \<open>items\<close> is an array.
\<close>

definition set_children :: "list_element \<Rightarrow> child list \<Rightarrow> page \<Rightarrow> page" where
  "set_children parent cs s = s\<lparr>children := (children s)(parent := cs)\<rparr>"

fun createListItems :: "engine \<Rightarrow> json option \<Rightarrow> list_element \<Rightarrow> command" where
  "createListItems eng (Some (JArr items)) parent s =
     (None, set_children parent (map (\<lambda>item. Li (text_content eng (Some item))) items)
              (set_children parent [] s))"
| "createListItems eng items parent s =
     (Some (JsError (type_error_message eng)), set_children parent [] s)"

fun createSuggestionItems :: "engine \<Rightarrow> json option \<Rightarrow> list_element \<Rightarrow> command" where
  "createSuggestionItems eng (Some (JArr suggestions)) parent s =
     (None, set_children parent
              (map (\<lambda>suggestion. SuggestionItem (text_content eng (Some suggestion))) suggestions)
              (set_children parent [] s))"
| "createSuggestionItems eng suggestions parent s =
     (Some (JsError (type_error_message eng)), set_children parent [] s)"

text \<open>
  The synchronous part of \<open>animateScore\<close> only schedules the first frame; the frames
  are modelled in the section on the score animation.
\<close>

definition animateScore_call :: "json option \<Rightarrow> command" where
  "animateScore_call targetScore s = (None, s\<lparr>animations := animations s @ [targetScore]\<rparr>)"

definition set_verdict :: "engine \<Rightarrow> json option \<Rightarrow> command" where
  "set_verdict eng verdict s =
     (None, s\<lparr>verdict_text := text_content eng verdict,
              verdict_classes :=
                [lit ''verdict-badge''] @
                (if verdict = Some (JStr (lit ''Hire'')) then [lit ''hire'']
                 else if verdict = Some (JStr (lit ''Hold'')) then [lit ''hold'']
                 else if verdict = Some (JStr (lit ''Reject'')) then [lit ''reject'']
                 else [])\<rparr>)"

definition reveal_results :: command where
  "reveal_results s = (None, (hideLoading s)\<lparr>results_hidden := False\<rparr>)"

text \<open>
  \<open>displayResults\<close>. The two \<open>setTimeout\<close> callbacks at its end (animation set-up,
  scrolling) run later and write none of the fields of \<open>page\<close>.
\<close>

definition displayResults :: "engine \<Rightarrow> json \<Rightarrow> command" where
  "displayResults eng data =
     seq (with_prop eng data ''match_score'' animateScore_call)
    (seq (with_prop eng data ''verdict'' (set_verdict eng))
    (seq (with_prop eng data ''strengths'' (\<lambda>v. createListItems eng v StrengthsList))
    (seq (with_prop eng data ''gaps'' (\<lambda>v. createListItems eng v GapsList))
    (seq (with_prop eng data ''reasons_for'' (\<lambda>v. createListItems eng v ReasonsForList))
    (seq (with_prop eng data ''reasons_against'' (\<lambda>v. createListItems eng v ReasonsAgainstList))
    (seq (with_prop eng data ''improvement_suggestions''
            (\<lambda>v. createSuggestionItems eng v SuggestionsList))
         reveal_results))))))"

section \<open>The evaluation request\<close>

text \<open>
  How the two awaited promises of \<open>evaluateResume\<close> settle: \<open>fetch\<close> rejects with an
  error, or resolves with a response whose \<open>ok\<close> flag is given and whose \<open>json()\<close>
  rejects or resolves with a value.
\<close>

datatype json_outcome = JsonRejects js_error | JsonResolves json

datatype fetch_outcome = FetchRejects js_error | FetchResolves bool json_outcome

text \<open>The outcomes that do not reach \<open>displayResults\<close>: a rejection, or a response that is not ok.\<close>

fun failed :: "fetch_outcome \<Rightarrow> bool" where
  "failed (FetchRejects e) = True"
| "failed (FetchResolves ok (JsonRejects e)) = True"
| "failed (FetchResolves ok (JsonResolves data)) = (\<not> ok)"

text \<open>
  \<open>evaluateResume\<close> is an async function: it runs up to \<open>await fetch(...)\<close>, and its
  continuation runs when the response has arrived. Other event handlers can run in
  between, so the two parts are separate functions.
\<close>

datatype progress = Returned page | Awaiting page

fun page_of :: "progress \<Rightarrow> page" where
  "page_of (Returned s) = s"
| "page_of (Awaiting s) = s"

fun awaiting :: "progress \<Rightarrow> bool" where
  "awaiting (Returned s) = False"
| "awaiting (Awaiting s) = True"

definition evaluate_request :: "jsstring \<Rightarrow> jsstring \<Rightarrow> request" where
  "evaluate_request jobDescription resume' =
     \<lparr>url = lit ''/evaluate'', http_method = lit ''POST'',
      content_type = lit ''application/json'',
      body = \<lparr>job_description = jobDescription, resume = resume'\<rparr>\<rparr>"

definition fetch :: "request \<Rightarrow> page \<Rightarrow> page" where
  "fetch r s = s\<lparr>requests := requests s @ [r]\<rparr>"

definition evaluateResume_start :: "page \<Rightarrow> progress" where
  "evaluateResume_start s =
     (let jobDescription = jobDescription_value s;
          resume' = resume_value s
      in case validateInputs jobDescription resume' of
           Invalid m \<Rightarrow> Returned (showError m s)
         | Valid \<Rightarrow>
             Awaiting (fetch (evaluate_request jobDescription resume')
                         ((showLoading s)\<lparr>button_disabled := True\<rparr>)))"

text \<open>The body of the \<open>try\<close> block after the two awaits.\<close>

definition try_body :: "engine \<Rightarrow> fetch_outcome \<Rightarrow> command" where
  "try_body eng outcome s =
     (case outcome of
        FetchRejects e \<Rightarrow> (Some e, s)
      | FetchResolves ok (JsonRejects e) \<Rightarrow> (Some e, s)
      | FetchResolves ok (JsonResolves data) \<Rightarrow>
          if \<not> ok then
            (case get_prop eng data (lit ''error'') of
               Inl e \<Rightarrow> (Some e, s)
             | Inr v \<Rightarrow>
                 (Some (JsError (if truthy v then to_string eng (the v)
                                 else lit ''An error occurred during evaluation'')), s))
          else displayResults eng data s)"

definition catch_block :: "js_error \<Rightarrow> page \<Rightarrow> page" where
  "catch_block e s =
     showError (if \<not> falsy (error_message e) then error_message e
                else lit ''Failed to evaluate. Please check your connection and try again.'') s"

definition finally_block :: "page \<Rightarrow> page" where
  "finally_block s = s\<lparr>button_disabled := False\<rparr>"

definition evaluateResume_resume :: "engine \<Rightarrow> fetch_outcome \<Rightarrow> page \<Rightarrow> page" where
  "evaluateResume_resume eng outcome s =
     finally_block
       (case try_body eng outcome s of
          (None, s1) \<Rightarrow> s1
        | (Some e, s1) \<Rightarrow> catch_block e s1)"

text \<open>
  An execution that no other handler interrupts: the server's answer to the request
  just issued settles it.
\<close>

definition evaluateResume :: "engine \<Rightarrow> (request \<Rightarrow> fetch_outcome) \<Rightarrow> page \<Rightarrow> page" where
  "evaluateResume eng server s =
     (case evaluateResume_start s of
        Returned s1 \<Rightarrow> s1
      | Awaiting s1 \<Rightarrow> evaluateResume_resume eng (server (last (requests s1))) s1)"

text \<open>
  The event listeners: typing in a textarea changes its value and fires \<open>input\<close>
  (\<open>hideError\<close>); a click reaches \<open>evaluateResume\<close> only while the button is enabled;
  Ctrl+Enter or Cmd+Enter anywhere in the document calls \<open>evaluateResume\<close>.
\<close>

definition input_jobDescription :: "jsstring \<Rightarrow> page \<Rightarrow> page" where
  "input_jobDescription v s = hideError (s\<lparr>jobDescription_value := v\<rparr>)"

definition input_resume :: "jsstring \<Rightarrow> page \<Rightarrow> page" where
  "input_resume v s = hideError (s\<lparr>resume_value := v\<rparr>)"

definition keydown_ctrl_enter :: "page \<Rightarrow> progress" where
  "keydown_ctrl_enter s = evaluateResume_start s"

definition click_evaluateBtn :: "page \<Rightarrow> progress" where
  "click_evaluateBtn s = (if button_disabled s then Returned s else evaluateResume_start s)"

text \<open>
  The page once the script has loaded: its last statements hide the three sections. The
  textareas are empty and the button is enabled, as the markup leaves them.
\<close>

definition page_loaded :: page where
  "page_loaded =
     \<lparr>jobDescription_value = [], resume_value = [], error_text = [],
      error_hidden = True, loading_hidden = True, results_hidden = True,
      button_disabled = False, animations = [], verdict_text = [], verdict_classes = [],
      children = (\<lambda>parent. []), requests = []\<rparr>"

text \<open>Example inputs: two texts that pass validation, an engine and a successful response.\<close>

definition example_job_description :: jsstring where
  "example_job_description = lit ''Senior Python developer with Flask and AWS experience''"

definition example_resume :: jsstring where
  "example_resume = lit ''Built Python services with Flask and deployed them on AWS''"

definition example_page :: page where
  "example_page =
     page_loaded\<lparr>jobDescription_value := example_job_description,
                 resume_value := example_resume\<rparr>"

definition example_padded_page :: page where
  "example_padded_page =
     page_loaded\<lparr>jobDescription_value := lit ''  '' @ example_job_description @ lit ''   '',
                 resume_value := lit '' '' @ example_resume\<rparr>"

definition example_short_page :: page where
  "example_short_page = example_page\<lparr>jobDescription_value := lit ''Python developer''\<rparr>"

definition example_engine :: engine where
  "example_engine =
     \<lparr>to_string = (\<lambda>v. case v of JStr s \<Rightarrow> s | _ \<Rightarrow> lit ''[object Object]''),
      type_error_message = lit ''Cannot read properties of null''\<rparr>"

definition example_result :: json where
  "example_result =
     JObj [(lit ''match_score'', JNum 82),
           (lit ''verdict'', JStr (lit ''Hire'')),
           (lit ''strengths'', JArr [JStr (lit ''python'')]),
           (lit ''gaps'', JArr []),
           (lit ''reasons_for'', JArr [JStr (lit ''Strong match of 82%'')]),
           (lit ''reasons_against'', JArr []),
           (lit ''improvement_suggestions'', JArr [])]"

definition example_server :: "request \<Rightarrow> fetch_outcome" where
  "example_server r = FetchResolves True (JsonResolves example_result)"

definition example_refusal :: fetch_outcome where
  "example_refusal =
     FetchResolves False (JsonResolves (JObj [(lit ''error'', JStr (lit ''Evaluation failed''))]))"

text \<open>
  The page of an overlapped execution: Ctrl+Enter starts a request from \<open>example_page\<close>,
  and while it is pending the user empties the job description.
\<close>

definition example_pending_page :: page where
  "example_pending_page = input_jobDescription [] (page_of (keydown_ctrl_enter example_page))"

section \<open>The score animation\<close>

text \<open>
  \<open>animateScore\<close> (the \<open>requestAnimationFrame\<close> version of \<open>static/script.js\<close>).
  Each frame callback \<open>updateScore\<close> receives the frame's timestamp, writes the
  rounded score and its colour, and asks for another frame while \<open>progress < 1\<close>.
  Times and scores are reals. On the last frame \<open>progress\<close> is exactly 1, the eased
  progress is \<open>1 - 0\<close> and the score is \<open>1 * targetScore\<close>, which floating point
  computes exactly as well.
\<close>

record score_display =
  score_text :: int
  score_color :: string

definition duration :: real where
  "duration = 2000"

definition easeOutCubic :: "real \<Rightarrow> real" where
  "easeOutCubic t = 1 - (1 - t) ^ 3"

text \<open>\<open>Math.round\<close>: to the nearest integer, halves upwards.\<close>

definition math_round :: "real \<Rightarrow> int" where
  "math_round x = \<lfloor>x + 1 / 2\<rfloor>"

definition updateScore :: "real \<Rightarrow> real \<Rightarrow> real \<Rightarrow> score_display \<times> bool" where
  "updateScore startTime targetScore currentTime =
     (let elapsed = currentTime - startTime;
          progress = min (elapsed / duration) 1;
          easedProgress = easeOutCubic progress;
          currentScore = easedProgress * targetScore
      in (\<lparr>score_text = math_round currentScore,
           score_color =
             (if currentScore \<ge> 75 then ''#10b981''
              else if currentScore \<ge> 50 then ''#f59e0b''
              else ''#ef4444'')\<rparr>,
          progress < 1))"

text \<open>
  The animation over the timestamps of the frames the browser delivers, from the
  display \<open>d\<close>: \<open>(True, d')\<close> when a frame ended it, \<open>(False, d')\<close> while it still
  waits for a frame.
\<close>

fun animateScore :: "real \<Rightarrow> real \<Rightarrow> real list \<Rightarrow> score_display \<Rightarrow> bool \<times> score_display" where
  "animateScore startTime targetScore [] d = (False, d)"
| "animateScore startTime targetScore (t # ts) d =
     (case updateScore startTime targetScore t of
        (d', again) \<Rightarrow>
          if again then animateScore startTime targetScore ts d' else (True, d'))"

text \<open>The verdict thresholds as the specification words them, and the band colours.\<close>

datatype verdict = Hire | Hold | Reject

definition spec_verdict :: "real \<Rightarrow> verdict" where
  "spec_verdict score =
     (if score \<ge> 75 then Hire else if 50 \<le> score \<and> score < 75 then Hold else Reject)"

fun verdict_color :: "verdict \<Rightarrow> string" where
  "verdict_color Hire = ''#10b981''"
| "verdict_color Hold = ''#f59e0b''"
| "verdict_color Reject = ''#ef4444''"

text \<open>The score element before the first frame of an example animation.\<close>

definition example_display :: score_display where
  "example_display = \<lparr>score_text = 0, score_color = ''#ef4444''\<rparr>"

section \<open>Cosine similarity\<close>

text \<open>
  The similarity engine runs on the server; its source is not part of
  \<open>static/script.js\<close>, so the definitions of this section follow the specification.
\<close>

datatype similarity_error = DimensionMismatch | DegenerateVector

text \<open>Modelled from the spec: the dot product \<open>dot(a,b)\<close> of the similarity engine.\<close>

definition dot :: "real list \<Rightarrow> real list \<Rightarrow> real" where
  "dot a b = sum_list (map (\<lambda>(x, y). x * y) (zip a b))"

text \<open>Modelled from the spec: the magnitude \<open>\<parallel>a\<parallel>\<close> of the similarity engine.\<close>

definition magnitude :: "real list \<Rightarrow> real" where
  "magnitude a = sqrt (dot a a)"

text \<open>
  Modelled from the spec: \<open>cosine_similarity\<close> of the server's similarity engine, which
  is missing from the sources. The specification gives
  \<open>cosine_similarity(a, b) = dot(a,b) / (\<parallel>a\<parallel> \<sqdot> \<parallel>b\<parallel>)\<close>, failing with
  \<open>DimensionMismatch\<close> when the lengths differ. For a vector of zero magnitude it
  names the failure \<open>DegenerateVector\<close> and also asks for similarity 0; the result in
  that case is the parameter \<open>degenerate\<close>.
\<close>

definition cosine_similarity ::
  "(similarity_error + real) \<Rightarrow> real list \<Rightarrow> real list \<Rightarrow> similarity_error + real" where
  "cosine_similarity degenerate a b =
     (if length a \<noteq> length b then Inl DimensionMismatch
      else if magnitude a = 0 \<or> magnitude b = 0 then degenerate
      else Inr (dot a b / (magnitude a * magnitude b)))"

section \<open>Properties of the validation\<close>

lemma trim_Nil: "trim [] = []"
  by (simp add: trim_def)

lemma validateInputs_cases:
  "validateInputs jd r =
     (if trim jd = [] then Invalid msg_enter_job_description
      else if trim r = [] then Invalid msg_enter_resume
      else if length (trim jd) < 50 then Invalid msg_job_description_short
      else if length (trim r) < 50 then Invalid msg_resume_short
      else Valid)"
  by (auto simp: validateInputs_def falsy_def trim_Nil)

lemma valid_iff:
  "valid (validateInputs jd r) \<longleftrightarrow> 50 \<le> length (trim jd) \<and> 50 \<le> length (trim r)"
  by (auto simp: validateInputs_cases)

lemma trim_example_job_description: "trim example_job_description = example_job_description"
  by (simp add: example_job_description_def lit_def trim_def is_white_space_def)

lemma trim_example_resume: "trim example_resume = example_resume"
  by (simp add: example_resume_def lit_def trim_def is_white_space_def)

lemma length_example_job_description: "length example_job_description = 53"
  by (simp add: example_job_description_def lit_def)

lemma length_example_resume: "length example_resume = 57"
  by (simp add: example_resume_def lit_def)

lemma validateInputs_example: "validateInputs example_job_description example_resume = Valid"
proof -
  have "example_job_description \<noteq> []" "example_resume \<noteq> []"
    using length_example_job_description length_example_resume by auto
  then show ?thesis
    by (simp add: validateInputs_cases trim_example_job_description trim_example_resume
        length_example_job_description length_example_resume)
qed

lemma trim_short: "trim (lit ''Python developer'') = lit ''Python developer''"
  by (simp add: lit_def trim_def is_white_space_def)

text \<open>
  C2. \<open>validateInputs\<close> is the first failure of the four rules in the specification's
  order: missing job description, missing resume, job description too short, resume too
  short. With both fields missing the job description is reported, and with both
  present but too short the job description is reported as too short.
\<close>

theorem validateInputs_first_failure:
  "validateInputs jd r = first_failure validation_rules jd r
   \<and> (missing jd \<and> missing r \<longrightarrow> validateInputs jd r = Invalid msg_enter_job_description)
   \<and> (\<not> missing jd \<and> \<not> missing r \<and> too_short jd \<and> too_short r
        \<longrightarrow> validateInputs jd r = Invalid msg_job_description_short)"
  by (simp add: validateInputs_cases validation_rules_def missing_def too_short_def)

theorem validateInputs_first_failure_witness:
  "(missing [] \<and> missing [])
   \<and> validateInputs [] [] = Invalid msg_enter_job_description
   \<and> (\<not> missing (lit ''Python developer'') \<and> too_short (lit ''Python developer''))
   \<and> validateInputs (lit ''Python developer'') (lit ''Python developer'')
       = Invalid msg_job_description_short
   \<and> validateInputs example_job_description example_resume
       = first_failure validation_rules example_job_description example_resume"
proof -
  have m: "missing []"
    by (simp add: missing_def trim_Nil)
  have p: "\<not> missing (lit ''Python developer'')"
    unfolding missing_def trim_short by (simp add: lit_def)
  have t: "too_short (lit ''Python developer'')"
    unfolding too_short_def trim_short by (simp add: lit_def)
  show ?thesis
    using m p t validateInputs_first_failure [of "[]" "[]"]
      validateInputs_first_failure [of "lit ''Python developer''" "lit ''Python developer''"]
      validateInputs_first_failure [of example_job_description example_resume]
    by blast
qed

lemma message_contents:
  "js_includes msg_job_description_short (lit ''too short'')"
  "js_includes msg_resume_short (lit ''too short'')"
  "\<not> js_includes msg_enter_resume (lit ''too short'')"
  "\<not> js_includes msg_job_description_short (lit ''job description'')"
  "js_includes msg_enter_job_description (lit ''job description'')"
  "js_includes msg_enter_resume (lit ''resume'')"
  "js_includes (lower_ascii msg_enter_job_description) (lit ''job description'')"
  "js_includes (lower_ascii msg_enter_resume) (lit ''resume'')"
  "js_includes (lower_ascii msg_job_description_short) (lit ''job description'')"
  "js_includes (lower_ascii msg_resume_short) (lit ''resume'')"
  by (simp_all add: msg_job_description_short_def msg_resume_short_def msg_enter_resume_def
      msg_enter_job_description_def lit_def lower_ascii_def lower_unit_def)

lemma messages_distinct:
  "msg_job_description_short \<noteq> msg_resume_short"
  "msg_job_description_short \<noteq> msg_enter_resume"
  "msg_job_description_short \<noteq> msg_enter_job_description"
  "msg_resume_short \<noteq> msg_enter_resume"
  "msg_resume_short \<noteq> msg_enter_job_description"
  by (simp_all add: msg_job_description_short_def msg_resume_short_def msg_enter_resume_def
      msg_enter_job_description_def lit_def)

lemma trim_replicate_49: "trim (replicate 49 0x61) = replicate 49 0x61"
  by (simp add: trim_def is_white_space_def)

lemma trim_replicate_50: "trim (replicate 50 0x61) = replicate 50 0x61"
  by (simp add: trim_def is_white_space_def)

lemma example_resume_present: "\<not> missing example_resume \<and> \<not> too_short example_resume"
  using length_example_resume
  by (auto simp: missing_def too_short_def trim_example_resume)

text \<open>
  C3, as the claim states it, fails: a job description of trimmed length 49 with an empty
  resume is rejected with the message for the missing resume, which does not contain
  \<open>too short\<close>.
\<close>

theorem validateInputs_boundary_counterexample:
  "replicate 49 0x61 \<noteq> ([] :: jsstring)
   \<and> length (trim (replicate 49 0x61)) = 49
   \<and> validateInputs (replicate 49 0x61) [] = Invalid msg_enter_resume
   \<and> \<not> js_includes msg_enter_resume (lit ''too short'')"
  by (simp add: trim_replicate_49 validateInputs_cases trim_Nil message_contents)

text \<open>
  C3, amended. A job description of trimmed length 49 is always invalid, and the message
  is the job description's \<open>too short\<close> message when the resume is not missing. A resume
  of trimmed length 49 is always invalid, with a \<open>too short\<close> message when the job
  description is not missing. At trimmed length 50 the field's length check passes: for
  the job description the result is decided by the resume alone, and for the resume the
  result is never the resume's \<open>too short\<close> message.
\<close>

theorem validateInputs_boundary:
  "(length (trim jd) = 49 \<longrightarrow> \<not> valid (validateInputs jd r))
   \<and> (length (trim jd) = 49 \<and> \<not> missing r
        \<longrightarrow> validateInputs jd r = Invalid msg_job_description_short)
   \<and> (length (trim r) = 49 \<longrightarrow> \<not> valid (validateInputs jd r))
   \<and> (length (trim r) = 49 \<and> \<not> missing jd
        \<longrightarrow> (\<exists>m. validateInputs jd r = Invalid m \<and> js_includes m (lit ''too short'')))
   \<and> (length (trim jd) = 50
        \<longrightarrow> validateInputs jd r =
             (if missing r then Invalid msg_enter_resume
              else if too_short r then Invalid msg_resume_short else Valid))
   \<and> (length (trim r) = 50 \<longrightarrow> validateInputs jd r \<noteq> Invalid msg_resume_short)
   \<and> js_includes msg_job_description_short (lit ''too short'')
   \<and> js_includes msg_resume_short (lit ''too short'')"
proof -
  have "length (trim jd) = 49 \<longrightarrow> \<not> valid (validateInputs jd r)"
    by (simp add: valid_iff)
  moreover have "length (trim jd) = 49 \<and> \<not> missing r
      \<longrightarrow> validateInputs jd r = Invalid msg_job_description_short"
    by (auto simp: validateInputs_cases missing_def)
  moreover have "length (trim r) = 49 \<longrightarrow> \<not> valid (validateInputs jd r)"
    by (simp add: valid_iff)
  moreover have "length (trim r) = 49 \<and> \<not> missing jd
      \<longrightarrow> (\<exists>m. validateInputs jd r = Invalid m \<and> js_includes m (lit ''too short''))"
    by (auto simp: validateInputs_cases missing_def message_contents)
  moreover have "length (trim jd) = 50
      \<longrightarrow> validateInputs jd r =
           (if missing r then Invalid msg_enter_resume
            else if too_short r then Invalid msg_resume_short else Valid)"
    by (auto simp: validateInputs_cases missing_def too_short_def)
  moreover have "length (trim r) = 50 \<longrightarrow> validateInputs jd r \<noteq> Invalid msg_resume_short"
    using messages_distinct by (auto simp: validateInputs_cases)
  ultimately show ?thesis
    using message_contents(1,2) by blast
qed

theorem validateInputs_boundary_witness:
  "(length (trim (replicate 49 0x61)) = 49 \<and> \<not> missing example_resume)
   \<and> validateInputs (replicate 49 0x61) example_resume = Invalid msg_job_description_short
   \<and> (length (trim (replicate 49 0x61)) = 49 \<and> \<not> missing example_job_description)
   \<and> (\<exists>m. validateInputs example_job_description (replicate 49 0x61) = Invalid m
          \<and> js_includes m (lit ''too short''))
   \<and> length (trim (replicate 50 0x61)) = 50
   \<and> validateInputs (replicate 50 0x61) example_resume = Valid
   \<and> validateInputs example_job_description (replicate 50 0x61) \<noteq> Invalid msg_resume_short"
proof -
  have a: "length (trim (replicate 49 0x61)) = 49"
    by (simp add: trim_replicate_49)
  have b: "length (trim (replicate 50 0x61)) = 50"
    by (simp add: trim_replicate_50)
  have c: "\<not> missing example_job_description"
    using length_example_job_description
    by (auto simp: missing_def trim_example_job_description)
  show ?thesis
    using a b c example_resume_present
      validateInputs_boundary [of "replicate 49 0x61" example_resume]
      validateInputs_boundary [of example_job_description "replicate 49 0x61"]
      validateInputs_boundary [of "replicate 50 0x61" example_resume]
      validateInputs_boundary [of example_job_description "replicate 50 0x61"]
    by simp
qed

lemma message_beginnings:
  "starts_with msg_job_description_short (lit ''Job description'')"
  "starts_with msg_resume_short (lit ''Resume'')"
  "\<not> js_includes msg_resume_short (lit ''resume'')"
  "\<not> js_includes msg_enter_resume (lit ''job description'')"
  "\<not> js_includes (lower_ascii msg_enter_resume) (lit ''job description'')"
  by (simp_all add: msg_job_description_short_def msg_resume_short_def msg_enter_resume_def
      lit_def lower_ascii_def lower_unit_def)

text \<open>
  C4, as the claim states it, fails in two ways. The message for a job description that
  is too short begins with a capital letter and does not contain \<open>job description\<close>.
  And a job description that is too short, with an empty resume, gets the message for
  the missing resume, which does not name the job description in any case of letters:
  the message names the field whose check failed first.
\<close>

theorem validateInputs_names_field_counterexample:
  "too_short (replicate 49 0x61)
   \<and> validateInputs (replicate 49 0x61) example_resume = Invalid msg_job_description_short
   \<and> \<not> js_includes msg_job_description_short (lit ''job description'')
   \<and> validateInputs (replicate 49 0x61) [] = Invalid msg_enter_resume
   \<and> \<not> js_includes msg_enter_resume (lit ''job description'')
   \<and> \<not> js_includes (lower_ascii msg_enter_resume) (lit ''job description'')"
  using example_resume_present
  by (simp add: validateInputs_cases trim_replicate_49 trim_Nil missing_def too_short_def
      message_contents message_beginnings)

text \<open>
  C4, amended. Every message of \<open>validateInputs\<close> names the field whose check failed
  first, up to the case of letters: the lower-cased message contains
  \<open>job description\<close> when the job description is missing, or is too short with the
  resume present, and contains \<open>resume\<close> otherwise. The two messages for a missing
  field contain the name as it is. The two messages for a field that is too short begin
  with the capitalised name, \<open>Job description\<close> and \<open>Resume\<close>, and do not contain the
  name in lower case.
\<close>

theorem validateInputs_names_field:
  assumes "validateInputs jd r = Invalid m"
  shows "(if missing jd \<or> (\<not> missing r \<and> too_short jd)
          then js_includes (lower_ascii m) (lit ''job description'')
          else js_includes (lower_ascii m) (lit ''resume''))
         \<and> (missing jd \<longrightarrow> js_includes m (lit ''job description''))
         \<and> (\<not> missing jd \<and> missing r \<longrightarrow> js_includes m (lit ''resume''))
         \<and> (\<not> missing jd \<and> \<not> missing r \<and> too_short jd
              \<longrightarrow> starts_with m (lit ''Job description'')
                  \<and> \<not> js_includes m (lit ''job description''))
         \<and> (\<not> missing jd \<and> \<not> missing r \<and> \<not> too_short jd
              \<longrightarrow> starts_with m (lit ''Resume'') \<and> \<not> js_includes m (lit ''resume''))"
proof -
  from assms have m: "m = (if trim jd = [] then msg_enter_job_description
      else if trim r = [] then msg_enter_resume
      else if length (trim jd) < 50 then msg_job_description_short
      else msg_resume_short)"
    by (auto simp: validateInputs_cases split: if_splits)
  show ?thesis
    unfolding m missing_def too_short_def
    by (simp add: message_contents message_beginnings)
qed

theorem validateInputs_names_field_witness:
  "validateInputs (replicate 49 0x61) example_resume = Invalid msg_job_description_short
   \<and> (\<not> missing (replicate 49 0x61) \<and> \<not> missing example_resume
        \<and> too_short (replicate 49 0x61))
   \<and> js_includes (lower_ascii msg_job_description_short) (lit ''job description'')
   \<and> starts_with msg_job_description_short (lit ''Job description'')
   \<and> validateInputs example_job_description (replicate 49 0x61) = Invalid msg_resume_short
   \<and> (\<not> missing example_job_description \<and> \<not> too_short example_job_description)
   \<and> js_includes (lower_ascii msg_resume_short) (lit ''resume'')
   \<and> starts_with msg_resume_short (lit ''Resume'')
   \<and> validateInputs [] [] = Invalid msg_enter_job_description
   \<and> missing []
   \<and> js_includes msg_enter_job_description (lit ''job description'')
   \<and> validateInputs (replicate 49 0x61) [] = Invalid msg_enter_resume
   \<and> js_includes msg_enter_resume (lit ''resume'')"
proof -
  have p: "\<not> missing (replicate 49 0x61)"
    by (simp add: missing_def trim_replicate_49)
  have c: "too_short (replicate 49 0x61)"
    by (simp add: too_short_def trim_replicate_49)
  have d: "missing []"
    by (simp add: missing_def trim_Nil)
  have j: "\<not> missing example_job_description \<and> \<not> too_short example_job_description"
    using length_example_job_description
    by (auto simp: missing_def too_short_def trim_example_job_description)
  have a: "validateInputs (replicate 49 0x61) example_resume = Invalid msg_job_description_short"
    using example_resume_present p c
    by (simp add: validateInputs_cases missing_def too_short_def)
  have b: "validateInputs [] [] = Invalid msg_enter_job_description"
    by (simp add: validateInputs_cases trim_Nil)
  have e: "validateInputs example_job_description (replicate 49 0x61) = Invalid msg_resume_short"
    using j p c by (simp add: validateInputs_cases missing_def too_short_def)
  have f: "validateInputs (replicate 49 0x61) [] = Invalid msg_enter_resume"
    using p by (simp add: validateInputs_cases missing_def trim_Nil)
  show ?thesis
    using a b c d e f j p example_resume_present
      validateInputs_names_field [OF a] validateInputs_names_field [OF b]
      validateInputs_names_field [OF e] validateInputs_names_field [OF f]
    by simp
qed

section \<open>Properties of the evaluation request\<close>

lemma validateInputs_short_page:
  "validateInputs (jobDescription_value example_short_page) (resume_value example_short_page)
     = Invalid msg_job_description_short"
proof -
  have "example_resume \<noteq> []"
    using length_example_resume by auto
  then show ?thesis
    by (simp add: example_short_page_def example_page_def page_loaded_def validateInputs_cases
        trim_short trim_example_resume) (simp add: lit_def)
qed

text \<open>
  C1. When either text is empty after trimming or has trimmed length below 50,
  \<open>evaluateResume\<close> shows the validation message and returns before the \<open>fetch\<close>: the
  execution does not wait for a response, and the list of requests is unchanged.
\<close>

theorem evaluateResume_invalid_no_request:
  assumes "trim (jobDescription_value s) = [] \<or> trim (resume_value s) = []
           \<or> length (trim (jobDescription_value s)) < 50
           \<or> length (trim (resume_value s)) < 50"
  shows "\<exists>m. validateInputs (jobDescription_value s) (resume_value s) = Invalid m
           \<and> evaluateResume_start s = Returned (showError m s)
           \<and> evaluateResume eng server s = showError m s
           \<and> requests (showError m s) = requests s
           \<and> \<not> error_hidden (showError m s)
           \<and> error_text (showError m s) = m"
proof -
  from assms have "\<not> valid (validateInputs (jobDescription_value s) (resume_value s))"
    by (auto simp: valid_iff)
  then obtain m where m: "validateInputs (jobDescription_value s) (resume_value s) = Invalid m"
    by (cases "validateInputs (jobDescription_value s) (resume_value s)") auto
  then have "evaluateResume_start s = Returned (showError m s)"
    by (simp add: evaluateResume_start_def)
  with m show ?thesis
    by (auto simp: evaluateResume_def showError_def)
qed

theorem evaluateResume_invalid_no_request_witness:
  "length (trim (jobDescription_value example_short_page)) < 50
   \<and> evaluateResume_start example_short_page
       = Returned (showError msg_job_description_short example_short_page)
   \<and> evaluateResume example_engine example_server example_short_page
       = showError msg_job_description_short example_short_page
   \<and> requests (showError msg_job_description_short example_short_page) = []"
proof -
  have h: "length (trim (jobDescription_value example_short_page)) < 50"
    by (simp add: example_short_page_def trim_short) (simp add: lit_def)
  have r: "requests example_short_page = []"
    by (simp add: example_short_page_def example_page_def page_loaded_def)
  from h have "trim (jobDescription_value example_short_page) = []
      \<or> trim (resume_value example_short_page) = []
      \<or> length (trim (jobDescription_value example_short_page)) < 50
      \<or> length (trim (resume_value example_short_page)) < 50"
    by simp
  from evaluateResume_invalid_no_request [OF this, of example_engine example_server]
  show ?thesis
    using h r by (auto simp: validateInputs_short_page)
qed

text \<open>
  C10. When validation passes, the one request issued goes to \<open>/evaluate\<close> and its body
  holds the two textarea values as they are, not their trimmed forms.
\<close>

theorem evaluateResume_sends_raw_values:
  assumes "valid (validateInputs (jobDescription_value s) (resume_value s))"
  shows "\<exists>s1. evaluateResume_start s = Awaiting s1
           \<and> requests s1
               = requests s @ [evaluate_request (jobDescription_value s) (resume_value s)]
           \<and> url (last (requests s1)) = lit ''/evaluate''
           \<and> http_method (last (requests s1)) = lit ''POST''
           \<and> job_description (body (last (requests s1))) = jobDescription_value s
           \<and> resume (body (last (requests s1))) = resume_value s"
proof -
  from assms have "validateInputs (jobDescription_value s) (resume_value s) = Valid"
    by (cases "validateInputs (jobDescription_value s) (resume_value s)") auto
  then show ?thesis
    by (simp add: evaluateResume_start_def fetch_def evaluate_request_def showLoading_def
        hideError_def)
qed

lemma trim_padded_job_description:
  "trim (jobDescription_value example_padded_page) = example_job_description"
  by (simp add: example_padded_page_def example_job_description_def lit_def trim_def
      is_white_space_def)

lemma trim_padded_resume: "trim (resume_value example_padded_page) = example_resume"
  by (simp add: example_padded_page_def example_resume_def lit_def trim_def is_white_space_def)

theorem evaluateResume_sends_raw_values_witness:
  "valid (validateInputs (jobDescription_value example_padded_page)
            (resume_value example_padded_page))
   \<and> (\<exists>s1. evaluateResume_start example_padded_page = Awaiting s1
          \<and> job_description (body (last (requests s1)))
              = lit ''  '' @ example_job_description @ lit ''   ''
          \<and> resume (body (last (requests s1))) = lit '' '' @ example_resume)
   \<and> trim (jobDescription_value example_padded_page) \<noteq> jobDescription_value example_padded_page"
proof -
  have v: "valid (validateInputs (jobDescription_value example_padded_page)
            (resume_value example_padded_page))"
    by (simp add: valid_iff trim_padded_job_description trim_padded_resume
        length_example_job_description length_example_resume)
  have "length (trim (jobDescription_value example_padded_page))
          \<noteq> length (jobDescription_value example_padded_page)"
    unfolding trim_padded_job_description
    by (simp add: example_padded_page_def lit_def)
  then have n: "trim (jobDescription_value example_padded_page)
          \<noteq> jobDescription_value example_padded_page"
    by metis
  from evaluateResume_sends_raw_values [OF v] show ?thesis
    using v n by (auto simp: example_padded_page_def)
qed

text \<open>A failed outcome throws before \<open>displayResults\<close> is reached, with the page untouched.\<close>

lemma try_body_failed: "failed outcome \<Longrightarrow> \<exists>e. try_body eng outcome s = (Some e, s)"
  by (cases outcome rule: failed.cases) (auto simp: try_body_def split: sum.splits)

text \<open>
  C6. When \<open>fetch\<close> or \<open>response.json()\<close> rejects, or the response is not ok, the
  continuation of \<open>evaluateResume\<close> ends in the \<open>catch\<close> branch: the page is the one
  \<open>showError\<close> gives, with the button enabled again. The error message is visible, the
  results section and the loading indicator are hidden, and the result elements are as
  they were. This holds from every page the continuation may find.
\<close>

theorem evaluateResume_failure_shows_error:
  assumes "failed outcome"
  shows "\<exists>m. evaluateResume_resume eng outcome s = finally_block (showError m s)
           \<and> \<not> error_hidden (evaluateResume_resume eng outcome s)
           \<and> results_hidden (evaluateResume_resume eng outcome s)
           \<and> loading_hidden (evaluateResume_resume eng outcome s)
           \<and> children (evaluateResume_resume eng outcome s) = children s
           \<and> verdict_text (evaluateResume_resume eng outcome s) = verdict_text s
           \<and> verdict_classes (evaluateResume_resume eng outcome s) = verdict_classes s
           \<and> animations (evaluateResume_resume eng outcome s) = animations s"
proof -
  from try_body_failed [OF assms] obtain e where "try_body eng outcome s = (Some e, s)"
    by blast
  then show ?thesis
    by (auto simp: evaluateResume_resume_def catch_block_def finally_block_def showError_def)
qed

theorem evaluateResume_failure_shows_error_witness:
  "failed example_refusal
   \<and> (\<exists>m. evaluateResume_resume example_engine example_refusal
             (page_of (evaluateResume_start example_page))
           = finally_block (showError m (page_of (evaluateResume_start example_page))))
   \<and> \<not> error_hidden (evaluateResume_resume example_engine example_refusal
         (page_of (evaluateResume_start example_page)))
   \<and> results_hidden (evaluateResume_resume example_engine example_refusal
         (page_of (evaluateResume_start example_page)))
   \<and> loading_hidden (evaluateResume_resume example_engine example_refusal
         (page_of (evaluateResume_start example_page)))"
proof -
  have f: "failed example_refusal"
    by (simp add: example_refusal_def)
  from evaluateResume_failure_shows_error [OF f] show ?thesis
    using f by blast
qed

section \<open>Properties of the similarity\<close>

lemma dot_commute: "dot a b = dot b a"
proof (induction a arbitrary: b)
  case Nil
  show ?case by (simp add: dot_def)
next
  case (Cons x xs)
  show ?case
  proof (cases b)
    case Nil
    then show ?thesis by (simp add: dot_def)
  next
    case (Cons y ys)
    have "dot xs ys = dot ys xs"
      by (rule Cons.IH)
    then show ?thesis
      using Cons by (simp add: dot_def mult.commute)
  qed
qed

lemma cosine_similarity_examples:
  "cosine_similarity degenerate [3, 4] [4, 3] = Inr (24 / 25)"
  "cosine_similarity degenerate [0, 0] [4, 3] = degenerate"
  "cosine_similarity degenerate [1] [4, 3] = Inl DimensionMismatch"
proof -
  have "sqrt 25 = 5"
    by (rule real_sqrt_unique) simp_all
  then show "cosine_similarity degenerate [3, 4] [4, 3] = Inr (24 / 25)"
    by (simp add: cosine_similarity_def dot_def magnitude_def)
  show "cosine_similarity degenerate [0, 0] [4, 3] = degenerate"
    by (simp add: cosine_similarity_def dot_def magnitude_def)
  show "cosine_similarity degenerate [1] [4, 3] = Inl DimensionMismatch"
    by (simp add: cosine_similarity_def)
qed

text \<open>
  C7. For two vectors of equal dimension, \<open>cosine_similarity\<close> gives the same result with
  its arguments exchanged, whatever it returns for a vector of zero magnitude.
\<close>

theorem cosine_similarity_symmetric:
  "length a = length b \<Longrightarrow> cosine_similarity degenerate a b = cosine_similarity degenerate b a"
  by (auto simp: cosine_similarity_def dot_commute mult.commute)

theorem cosine_similarity_symmetric_witness:
  "length [3, 4 :: real] = length [4, 3 :: real]
   \<and> cosine_similarity (Inl DegenerateVector) [3, 4] [4, 3]
       = cosine_similarity (Inl DegenerateVector) [4, 3] [3, 4]"
proof -
  have l: "length [3, 4 :: real] = length [4, 3 :: real]"
    by simp
  from cosine_similarity_symmetric [OF l] show ?thesis
    by simp
qed

section \<open>Properties of the score animation\<close>

lemma updateScore_again: "snd (updateScore st tg t) \<longleftrightarrow> t - st < duration"
  by (simp add: updateScore_def Let_def duration_def min_def)

lemma updateScore_final:
  assumes "duration \<le> t - st"
  shows "fst (updateScore st tg t)
           = \<lparr>score_text = math_round tg, score_color = verdict_color (spec_verdict tg)\<rparr>"
  using assms
  by (simp add: updateScore_def Let_def duration_def min_def easeOutCubic_def spec_verdict_def)

text \<open>The animation ends exactly when a frame arrives \<open>duration\<close> or more after its start.\<close>

lemma animateScore_completes:
  "fst (animateScore st tg frames d) \<longleftrightarrow> (\<exists>t\<in>set frames. duration \<le> t - st)"
proof (induction frames arbitrary: d)
  case Nil
  show ?case by simp
next
  case (Cons t ts)
  obtain d' again where u: "updateScore st tg t = (d', again)"
    by (cases "updateScore st tg t")
  with updateScore_again [of st tg t] have a: "again \<longleftrightarrow> t - st < duration"
    by simp
  show ?case
    using u a Cons.IH [of d'] by auto
qed

lemma animateScore_final:
  "fst (animateScore st tg frames d) \<Longrightarrow>
     snd (animateScore st tg frames d)
       = \<lparr>score_text = math_round tg, score_color = verdict_color (spec_verdict tg)\<rparr>"
proof (induction frames arbitrary: d)
  case Nil
  then show ?case by simp
next
  case (Cons t ts)
  obtain d' again where u: "updateScore st tg t = (d', again)"
    by (cases "updateScore st tg t")
  with updateScore_again [of st tg t] have a: "again \<longleftrightarrow> t - st < duration"
    by simp
  show ?case
  proof (cases again)
    case True
    with u Cons show ?thesis by simp
  next
    case False
    with a have "duration \<le> t - st" by simp
    from updateScore_final [OF this, of tg] u False show ?thesis by simp
  qed
qed

text \<open>
  C5. The animation ends exactly when a frame arrives \<open>duration\<close> or more after its
  start, and the colour it leaves is the colour of the specification's verdict for the
  target score: the Hire colour from 75, the Hold colour from 50 below 75, the Reject
  colour below 50, and no other.
\<close>

theorem animateScore_final_color:
  "(fst (animateScore st s frames d) \<longleftrightarrow> (\<exists>t\<in>set frames. duration \<le> t - st))
   \<and> (fst (animateScore st s frames d) \<longrightarrow>
        score_color (snd (animateScore st s frames d)) = verdict_color (spec_verdict s)
        \<and> score_color (snd (animateScore st s frames d))
            = (if s \<ge> 75 then ''#10b981'' else if s \<ge> 50 then ''#f59e0b'' else ''#ef4444'')
        \<and> score_text (snd (animateScore st s frames d)) = math_round s)"
  using animateScore_completes [of st s frames d] animateScore_final [of st s frames d]
  by (auto simp: spec_verdict_def)

lemma animateScore_example:
  "animateScore 0 85 [16, 1000, 2000] example_display
     = (True, \<lparr>score_text = 85, score_color = ''#10b981''\<rparr>)"
  by (simp add: updateScore_def Let_def duration_def easeOutCubic_def math_round_def)

theorem animateScore_final_color_witness:
  "fst (animateScore 0 85 [16, 1000, 2000] example_display)
   \<and> score_color (snd (animateScore 0 85 [16, 1000, 2000] example_display))
       = verdict_color (spec_verdict 85)
   \<and> verdict_color (spec_verdict 85) = verdict_color (spec_verdict 75)
   \<and> score_text (snd (animateScore 0 85 [16, 1000, 2000] example_display)) = 85"
proof -
  have f: "fst (animateScore 0 85 [16, 1000, 2000] example_display)"
    unfolding animateScore_example by simp
  have r: "math_round 85 = 85"
    by (simp add: math_round_def)
  have v: "verdict_color (spec_verdict 85) = verdict_color (spec_verdict 75)"
    by (simp add: spec_verdict_def)
  show ?thesis
    using f r v animateScore_final_color [of 0 85 "[16, 1000, 2000]" example_display]
    by simp
qed

section \<open>Properties of the button and of the visible sections\<close>

lemma resume_button_enabled: "\<not> button_disabled (evaluateResume_resume eng outcome s)"
  by (simp add: evaluateResume_resume_def finally_block_def)

lemma start_invalid:
  "\<not> valid (validateInputs (jobDescription_value s) (resume_value s)) \<Longrightarrow>
     \<exists>m. evaluateResume_start s = Returned (showError m s)"
  by (cases "validateInputs (jobDescription_value s) (resume_value s)")
     (auto simp: evaluateResume_start_def)

lemma start_valid:
  "valid (validateInputs (jobDescription_value s) (resume_value s)) \<Longrightarrow>
     evaluateResume_start s =
       Awaiting (fetch (evaluate_request (jobDescription_value s) (resume_value s))
                  ((showLoading s)\<lparr>button_disabled := True\<rparr>))"
  by (cases "validateInputs (jobDescription_value s) (resume_value s)")
     (auto simp: evaluateResume_start_def)

lemma example_start:
  "evaluateResume_start example_page =
     Awaiting (example_page\<lparr>button_disabled := True,
       requests := [evaluate_request example_job_description example_resume],
       loading_hidden := False\<rparr>)"
  by (simp add: evaluateResume_start_def example_page_def validateInputs_example page_loaded_def
      showLoading_def hideError_def fetch_def)

lemma example_pending_start:
  "evaluateResume_start example_pending_page =
     Returned (showError msg_enter_job_description example_pending_page)"
  by (simp add: evaluateResume_start_def example_pending_page_def input_jobDescription_def
      hideError_def validateInputs_cases trim_Nil)

lemma example_pending_button: "button_disabled example_pending_page"
  by (simp add: example_pending_page_def input_jobDescription_def hideError_def
      keydown_ctrl_enter_def example_start)

text \<open>
  While the request is pending a click does nothing, since the button is disabled; the
  keyboard shortcut is not held back and runs \<open>evaluateResume\<close> again.
\<close>

lemma example_pending_click: "click_evaluateBtn example_pending_page = Returned example_pending_page"
  by (simp add: click_evaluateBtn_def example_pending_button)

lemma example_pending_keydown:
  "keydown_ctrl_enter example_pending_page =
     Returned (showError msg_enter_job_description example_pending_page)"
  by (simp add: keydown_ctrl_enter_def example_pending_start)

text \<open>
  C8, as the claim states it, fails: an execution that fails validation while an earlier
  request is still pending is complete, and leaves the button disabled.
\<close>

theorem evaluateResume_button_enabled_counterexample:
  "\<not> button_disabled example_page
   \<and> awaiting (keydown_ctrl_enter example_page)
   \<and> evaluateResume_start example_pending_page
       = Returned (evaluateResume example_engine example_server example_pending_page)
   \<and> button_disabled (evaluateResume example_engine example_server example_pending_page)"
  by (simp add: keydown_ctrl_enter_def example_start evaluateResume_def example_pending_start
      showError_def example_pending_button) (simp add: example_page_def page_loaded_def)

text \<open>
  C8, amended. The continuation of \<open>evaluateResume\<close> always ends with the button enabled,
  so every execution that passes validation does. An execution that fails validation
  returns at once and leaves the button as it was. Hence an execution that begins with
  the button enabled ends with it enabled.
\<close>

theorem evaluateResume_button_enabled:
  "\<not> button_disabled (evaluateResume_resume eng outcome s')
   \<and> (valid (validateInputs (jobDescription_value s) (resume_value s))
        \<longrightarrow> \<not> button_disabled (evaluateResume eng server s))
   \<and> (\<not> valid (validateInputs (jobDescription_value s) (resume_value s))
        \<longrightarrow> evaluateResume_start s = Returned (evaluateResume eng server s)
            \<and> button_disabled (evaluateResume eng server s) = button_disabled s)
   \<and> (\<not> button_disabled s \<longrightarrow> \<not> button_disabled (evaluateResume eng server s))"
proof -
  have a: "\<not> button_disabled (evaluateResume eng server s)"
    if "valid (validateInputs (jobDescription_value s) (resume_value s))"
    using start_valid [OF that] by (simp add: evaluateResume_def resume_button_enabled)
  have b: "evaluateResume_start s = Returned (evaluateResume eng server s)
            \<and> button_disabled (evaluateResume eng server s) = button_disabled s"
    if "\<not> valid (validateInputs (jobDescription_value s) (resume_value s))"
    using start_invalid [OF that] by (auto simp: evaluateResume_def showError_def)
  show ?thesis
    using a b resume_button_enabled by blast
qed

theorem evaluateResume_button_enabled_witness:
  "valid (validateInputs (jobDescription_value example_page) (resume_value example_page))
   \<and> \<not> button_disabled (evaluateResume example_engine example_server example_page)
   \<and> \<not> valid (validateInputs (jobDescription_value example_short_page)
              (resume_value example_short_page))
   \<and> \<not> button_disabled example_short_page
   \<and> \<not> button_disabled (evaluateResume example_engine example_server example_short_page)"
proof -
  have v: "valid (validateInputs (jobDescription_value example_page) (resume_value example_page))"
    by (simp add: example_page_def validateInputs_example)
  have n: "\<not> valid (validateInputs (jobDescription_value example_short_page)
              (resume_value example_short_page))"
    by (simp add: validateInputs_short_page)
  have e: "\<not> button_disabled example_short_page"
    by (simp add: example_short_page_def example_page_def page_loaded_def)
  show ?thesis
    using v n e
      evaluateResume_button_enabled
        [where eng = example_engine and s = example_page and server = example_server]
      evaluateResume_button_enabled
        [where eng = example_engine and s = example_short_page and server = example_server]
    by blast
qed

text \<open>\<open>displayResults\<close> never touches the error message, whether it completes or throws.\<close>

lemma seq_error_hidden:
  assumes "\<And>s. error_hidden (snd (c1 s)) = error_hidden s"
    and "\<And>s. error_hidden (snd (c2 s)) = error_hidden s"
  shows "error_hidden (snd (seq c1 c2 s)) = error_hidden s"
proof (cases "c1 s")
  case (Pair r s1)
  with assms(1) [of s] have "error_hidden s1 = error_hidden s"
    by simp
  with Pair assms(2) [of s1] show ?thesis
    by (cases r) (simp_all add: seq_def)
qed

lemma with_prop_error_hidden:
  assumes "\<And>v s. error_hidden (snd (f v s)) = error_hidden s"
  shows "error_hidden (snd (with_prop eng data k f s)) = error_hidden s"
  using assms by (simp add: with_prop_def split: sum.splits)

lemma createListItems_error_hidden:
  "error_hidden (snd (createListItems eng v parent s)) = error_hidden s"
  by (cases "(eng, v, parent, s)" rule: createListItems.cases) (simp_all add: set_children_def)

lemma createSuggestionItems_error_hidden:
  "error_hidden (snd (createSuggestionItems eng v parent s)) = error_hidden s"
  by (cases "(eng, v, parent, s)" rule: createSuggestionItems.cases)
     (simp_all add: set_children_def)

lemma displayResults_error_hidden:
  "error_hidden (snd (displayResults eng data s)) = error_hidden s"
  unfolding displayResults_def
  by (intro seq_error_hidden with_prop_error_hidden createListItems_error_hidden
      createSuggestionItems_error_hidden)
     (simp_all add: animateScore_call_def set_verdict_def reveal_results_def hideLoading_def)

text \<open>
  When the error message is hidden as the continuation starts, at most one of the error
  message and the results section is visible when it ends.
\<close>

lemma resume_exclusive:
  assumes h: "error_hidden s"
  shows "error_hidden (evaluateResume_resume eng outcome s)
         \<or> results_hidden (evaluateResume_resume eng outcome s)"
proof -
  obtain r s1 where t: "try_body eng outcome s = (r, s1)"
    by (cases "try_body eng outcome s")
  show ?thesis
  proof (cases r)
    case None
    have "error_hidden (snd (try_body eng outcome s)) = error_hidden s"
      using displayResults_error_hidden [of eng _ s]
      by (auto simp: try_body_def split: fetch_outcome.splits json_outcome.splits sum.splits)
    with t h None show ?thesis
      by (simp add: evaluateResume_resume_def finally_block_def)
  next
    case (Some e)
    with t show ?thesis
      by (simp add: evaluateResume_resume_def finally_block_def catch_block_def showError_def)
  qed
qed

text \<open>An execution that nothing interrupts ends with at most one of the two visible.\<close>

lemma evaluateResume_exclusive:
  "error_hidden (evaluateResume eng server s) \<or> results_hidden (evaluateResume eng server s)"
proof (cases "valid (validateInputs (jobDescription_value s) (resume_value s))")
  case True
  from start_valid [OF True] resume_exclusive show ?thesis
    by (simp add: evaluateResume_def fetch_def showLoading_def hideError_def)
next
  case False
  from start_invalid [OF False] show ?thesis
    by (auto simp: evaluateResume_def showError_def)
qed

lemma displayResults_example:
  "displayResults example_engine example_result s =
     (None, s\<lparr>animations := animations s @ [Some (JNum 82)],
        verdict_text := lit ''Hire'', verdict_classes := [lit ''verdict-badge'', lit ''hire''],
        children := (children s)(StrengthsList := [Li (lit ''python'')], GapsList := [],
           ReasonsForList := [Li (lit ''Strong match of 82%'')], ReasonsAgainstList := [],
           SuggestionsList := []),
        loading_hidden := True, results_hidden := False\<rparr>)"
  by (simp add: displayResults_def example_result_def example_engine_def seq_def with_prop_def
      lit_def animateScore_call_def set_verdict_def set_children_def reveal_results_def
      hideLoading_def)

text \<open>
  C9. The code breaks the claim when two executions overlap. Ctrl+Enter starts a request
  from \<open>example_page\<close>; while it is pending the user empties the job description and
  presses Ctrl+Enter again, and that second execution fails validation and shows the
  error. When the response of the first request arrives, \<open>displayResults\<close> reveals the
  results and leaves the error message visible: the first execution ends with both the
  error message and the results section visible.
\<close>

theorem evaluateResume_overlap_shows_error_and_results:
  "awaiting (keydown_ctrl_enter example_page)
   \<and> keydown_ctrl_enter example_pending_page
       = Returned (showError msg_enter_job_description example_pending_page)
   \<and> error_hidden (evaluateResume_resume example_engine
         (example_server (last (requests (page_of (keydown_ctrl_enter example_page)))))
         (page_of (keydown_ctrl_enter example_pending_page))) = False
   \<and> results_hidden (evaluateResume_resume example_engine
         (example_server (last (requests (page_of (keydown_ctrl_enter example_page)))))
         (page_of (keydown_ctrl_enter example_pending_page))) = False"
  by (simp add: keydown_ctrl_enter_def example_start example_pending_start example_server_def
      showError_def evaluateResume_resume_def try_body_def displayResults_example
      finally_block_def)

end
